theory Spec2Isabelle
  imports Main
begin

unbundle bit_operations_syntax

section \<open>Python values and errors\<close>

text \<open>
  The exceptions that the modelled part of \<^verbatim>\<open>autogpt/core/runner/server.py\<close> can raise.
\<close>

datatype py_error = KeyError | TypeError | AttributeError

text \<open>
  The values that travel in the \<^verbatim>\<open>content\<close> and \<^verbatim>\<open>metadata\<close> mappings. A \<open>PObj\<close> is
  any other object, known by its identity only (a list, a float, the message broker
  itself): its type has no \<^verbatim>\<open>&\<close> with a \<^verbatim>\<open>bool\<close>, is not a mapping and cannot be
  subscripted. Dictionaries have string keys.
\<close>

datatype pyval =
    PNone
  | PBool bool
  | PInt int
  | PStr string
  | PDict "string \<Rightarrow> pyval option"
  | PObj nat

type_synonym dict = "string \<Rightarrow> pyval option"

text \<open>\<^verbatim>\<open>d[k]\<close> on a \<^verbatim>\<open>dict\<close>: a missing key raises \<^verbatim>\<open>KeyError\<close>.\<close>

definition dict_getitem :: "dict \<Rightarrow> string \<Rightarrow> py_error + pyval" where
  "dict_getitem d k = (case d k of None \<Rightarrow> Inl KeyError | Some v \<Rightarrow> Inr v)"

text \<open>
  \<^verbatim>\<open>b & v\<close> with \<^verbatim>\<open>b\<close> a \<^verbatim>\<open>bool\<close>: two booleans give a boolean, a boolean and an
  integer give the bitwise conjunction of the integers, and every other right operand
  raises \<^verbatim>\<open>TypeError\<close> (unsupported operand types).
\<close>

definition py_and :: "bool \<Rightarrow> pyval \<Rightarrow> py_error + pyval" where
  "py_and b v =
     (case v of
        PBool c \<Rightarrow> Inr (PBool (b \<and> c))
      | PInt i \<Rightarrow> Inr (PInt (of_bool b AND i))
      | _ \<Rightarrow> Inl TypeError)"

text \<open>\<^verbatim>\<open>a | b\<close> on two values of type \<^verbatim>\<open>bool\<close> is again a \<^verbatim>\<open>bool\<close>.\<close>

definition py_or :: "bool \<Rightarrow> bool \<Rightarrow> bool" where
  "py_or a b = (a \<or> b)"

text \<open>
  \<^verbatim>\<open>v == s\<close> with \<^verbatim>\<open>s\<close> a string literal: only an equal string compares equal; a
  boolean, an integer, \<^verbatim>\<open>None\<close>, a dictionary or an object of another type does not.
\<close>

definition py_eq_str :: "pyval \<Rightarrow> string \<Rightarrow> bool" where
  "py_eq_str v s = (case v of PStr t \<Rightarrow> t = s | _ \<Rightarrow> False)"

section \<open>Messages\<close>

text \<open>
  Modelled from the spec: \<^verbatim>\<open>Role\<close> and \<^verbatim>\<open>Message\<close> are imported from
  \<^verbatim>\<open>autogpt.core.messaging.simple\<close>, which is not part of the sources. The spec gives
  the roles \<^verbatim>\<open>USER\<close>, \<^verbatim>\<open>AGENT\<close>, \<^verbatim>\<open>AGENT_FACTORY\<close>, a sender identity of a name and a
  role, metadata of a sender and an open mapping, and a message of a content mapping and
  metadata. The field names are the attributes that \<^verbatim>\<open>server.py\<close> reads.
\<close>

datatype Role = USER | AGENT | AGENT_FACTORY

record sender_identity =
  name :: string
  role :: Role

record message_metadata =
  sender :: sender_identity
  additional_metadata :: dict

record message =
  content :: dict
  metadata :: message_metadata

text \<open>A message written out by its sender's name and role, its content and its metadata.\<close>

abbreviation message_of :: "string \<Rightarrow> Role \<Rightarrow> dict \<Rightarrow> dict \<Rightarrow> message" where
  "message_of n r c a \<equiv>
     \<lparr>content = c, metadata = \<lparr>sender = \<lparr>name = n, role = r\<rparr>, additional_metadata = a\<rparr>\<rparr>"

section \<open>MessageFilters\<close>

definition is_user_message :: "message \<Rightarrow> bool" where
  "is_user_message m = (let md = metadata m in role (sender md) = USER)"

definition is_agent_message :: "message \<Rightarrow> bool" where
  "is_agent_message m = (let md = metadata m in role (sender md) = AGENT)"

definition is_agent_factory_message :: "message \<Rightarrow> bool" where
  "is_agent_factory_message m = (let md = metadata m in role (sender md) = AGENT_FACTORY)"

definition is_server_message :: "message \<Rightarrow> bool" where
  "is_server_message m = py_or (is_agent_message m) (is_agent_factory_message m)"

text \<open>
  In Python \<^verbatim>\<open>&\<close> binds tighter than \<^verbatim>\<open>==\<close>, so the body
  \<^verbatim>\<open>is_user_message(message) & metadata.additional_metadata["instruction"] == "bootstrap_agent"\<close>
  is \<^verbatim>\<open>(is_user_message(message) & metadata.additional_metadata["instruction"]) == "bootstrap_agent"\<close>.
  The operands are evaluated from left to right: the role test, the subscript, then
  \<^verbatim>\<open>&\<close>, then the comparison.
\<close>

definition is_user_bootstrap_message :: "message \<Rightarrow> py_error + bool" where
  "is_user_bootstrap_message m =
     (let md = metadata m;
          u = is_user_message m
      in case dict_getitem (additional_metadata md) ''instruction'' of
           Inl e \<Rightarrow> Inl e
         | Inr v \<Rightarrow>
             (case py_and u v of
                Inl e \<Rightarrow> Inl e
              | Inr r \<Rightarrow> Inr (py_eq_str r ''bootstrap_agent'')))"

definition is_user_launch_message :: "message \<Rightarrow> py_error + bool" where
  "is_user_launch_message m =
     (let md = metadata m;
          u = is_user_message m
      in case dict_getitem (additional_metadata md) ''instruction'' of
           Inl e \<Rightarrow> Inl e
         | Inr v \<Rightarrow>
             (case py_and u v of
                Inl e \<Rightarrow> Inl e
              | Inr r \<Rightarrow> Inr (py_eq_str r ''launch_agent'')))"

section \<open>FakeApplicationServer\<close>

text \<open>
  \<^verbatim>\<open>message_queue = defaultdict(list)\<close>: a dictionary from sender names to lists of
  messages; reading a missing key stores and returns the empty list. Whatever else the
  listeners of the channel change (the agent and the agent factory, which are not part
  of the sources) is the component \<open>listeners\<close> of the state.
\<close>

type_synonym queues = "string \<Rightarrow> message list option"

record 'w server_state =
  message_queue :: queues
  listeners :: 'w

definition defaultdict_getitem :: "queues \<Rightarrow> string \<Rightarrow> message list \<times> queues" where
  "defaultdict_getitem q k =
     (case q k of None \<Rightarrow> ([], q(k \<mapsto> [])) | Some ms \<Rightarrow> (ms, q))"

text \<open>
  \<^verbatim>\<open>_add_to_queue\<close>: \<^verbatim>\<open>self.message_queue[message.metadata.sender.name].append(message)\<close>.
\<close>

definition server_add_to_queue :: "message \<Rightarrow> 'w server_state \<Rightarrow> 'w server_state" where
  "server_add_to_queue m s =
     (let k = name (sender (metadata m));
          (ms, q) = defaultdict_getitem (message_queue s) k
      in s\<lparr>message_queue := q(k \<mapsto> ms @ [m])\<rparr>)"

text \<open>
  \<^verbatim>\<open>v[k]\<close> on a value: a dictionary is looked up, any other value of the model cannot
  be subscripted with a string. \<^verbatim>\<open>**v\<close> inside a dictionary display needs a mapping.
\<close>

definition py_getitem :: "pyval \<Rightarrow> string \<Rightarrow> py_error + pyval" where
  "py_getitem v k = (case v of PDict d \<Rightarrow> dict_getitem d k | _ \<Rightarrow> Inl TypeError)"

definition py_mapping :: "pyval \<Rightarrow> py_error + dict" where
  "py_mapping v = (case v of PDict d \<Rightarrow> Inr d | _ \<Rightarrow> Inl TypeError)"

text \<open>
  \<^verbatim>\<open>{**a, **b}\<close>: \<^verbatim>\<open>a\<close> is evaluated and unpacked, then \<^verbatim>\<open>b\<close>; the entries of
  \<^verbatim>\<open>b\<close> are written over those of \<^verbatim>\<open>a\<close>.
\<close>

definition dict_display :: "py_error + pyval \<Rightarrow> pyval \<Rightarrow> py_error + dict" where
  "dict_display a b =
     (case a of
        Inl e \<Rightarrow> Inl e
      | Inr av \<Rightarrow>
          (case py_mapping av of
             Inl e \<Rightarrow> Inl e
           | Inr ad \<Rightarrow>
               (case py_mapping b of
                  Inl e \<Rightarrow> Inl e
                | Inr bd \<Rightarrow> Inr (ad ++ bd))))"

text \<open>The request: an object whose attribute \<^verbatim>\<open>json\<close> is read and subscripted.\<close>

record request =
  json :: pyval

text \<open>
  \<^verbatim>\<open>object()\<close> makes an instance of \<^verbatim>\<open>object\<close>, which has no attribute dictionary:
  every attribute assignment on it raises \<^verbatim>\<open>AttributeError\<close>. An object is modelled by
  its attributes; the values assigned in the server are a status code and the list of
  collected messages.
\<close>

datatype attr_value = AInt int | AMessages "message list"

type_synonym py_object = "string \<Rightarrow> attr_value option"

definition object_new :: py_object where
  "object_new = Map.empty"

definition object_setattr :: "py_object \<Rightarrow> string \<Rightarrow> attr_value \<Rightarrow> py_error + py_object" where
  "object_setattr obj attr v = Inl AttributeError"

text \<open>
  The first two statements of \<^verbatim>\<open>_send_message\<close>, which build the arguments of the send:
  \<^verbatim>\<open>content = {**request.json["content"], **extra_content}\<close> and
  \<^verbatim>\<open>metadata = {**request.json["metadata"], **extra_metadata}\<close>.
\<close>

definition send_message_args :: "request \<Rightarrow> pyval \<Rightarrow> pyval \<Rightarrow> py_error + (dict \<times> dict)" where
  "send_message_args rq extra_content extra_metadata =
     (case dict_display (py_getitem (json rq) ''content'') extra_content of
        Inl e \<Rightarrow> Inl e
      | Inr c \<Rightarrow>
          (case dict_display (py_getitem (json rq) ''metadata'') extra_metadata of
             Inl e \<Rightarrow> Inl e
           | Inr md \<Rightarrow> Inr (c, md)))"

text \<open>
  Modelled from the spec: \<^verbatim>\<open>self._user_emitter.send_message\<close> belongs to
  \<^verbatim>\<open>autogpt.core.messaging.simple\<close>, which is not part of the sources. It is a parameter
  of the server's functions: given the content and the metadata it changes the state and
  either raises or returns a value that is read as a truth value (the spec: true iff the
  channel accepted the message).
\<close>

type_synonym 'w emitter = "dict \<Rightarrow> dict \<Rightarrow> 'w server_state \<Rightarrow> (py_error + bool) \<times> 'w server_state"

text \<open>
  \<^verbatim>\<open>_send_message\<close>. An exception leaves the state as it was when it was raised. The
  defaults of \<^verbatim>\<open>extra_content\<close> and \<^verbatim>\<open>extra_metadata\<close> are \<^verbatim>\<open>None\<close>.
\<close>

definition server_send_message ::
  "'w emitter \<Rightarrow> request \<Rightarrow> pyval \<Rightarrow> pyval \<Rightarrow> 'w server_state \<Rightarrow> (py_error + py_object) \<times> 'w server_state"
where
  "server_send_message user_emitter rq extra_content extra_metadata s =
     (case send_message_args rq extra_content extra_metadata of
        Inl e \<Rightarrow> (Inl e, s)
      | Inr (c, md) \<Rightarrow>
          (case user_emitter c md s of
             (Inl e, s') \<Rightarrow> (Inl e, s')
           | (Inr success, s') \<Rightarrow>
               (let response = object_new
                in if success
                   then (object_setattr response ''status_code'' (AInt 200), s')
                   else (object_setattr response ''status_code'' (AInt 500), s'))))"

text \<open>
  \<^verbatim>\<open>boostrap_new_agent\<close>. The message broker that goes into the content is an object,
  given by its identity.
\<close>

definition boostrap_new_agent ::
  "'w emitter \<Rightarrow> nat \<Rightarrow> request \<Rightarrow> 'w server_state \<Rightarrow> (py_error + py_object) \<times> 'w server_state"
where
  "boostrap_new_agent user_emitter message_broker rq s =
     (case server_send_message user_emitter rq
             (PDict [''message_broker'' \<mapsto> PObj message_broker])
             (PDict [''instruction'' \<mapsto> PStr ''bootstrap_agent'']) s of
        (Inl e, s') \<Rightarrow> (Inl e, s')
      | (Inr response, s') \<Rightarrow>
          (let (agent_factory_responses, q) =
                 defaultdict_getitem (message_queue s') ''autogpt-agent-factory'';
               s'' = s'\<lparr>message_queue := q(''autogpt-agent-factory'' \<mapsto> [])\<rparr>
           in (object_setattr response ''json'' (AMessages agent_factory_responses), s'')))"

text \<open>\<^verbatim>\<open>launch_agent\<close>: \<^verbatim>\<open>return await self._send_message(request)\<close>.\<close>

definition launch_agent ::
  "'w emitter \<Rightarrow> request \<Rightarrow> 'w server_state \<Rightarrow> (py_error + py_object) \<times> 'w server_state"
where
  "launch_agent user_emitter rq s = server_send_message user_emitter rq PNone PNone s"

section \<open>The channel of the message broker\<close>

text \<open>
  Modelled from the spec: \<^verbatim>\<open>SimpleMessageBroker\<close> and its channels are imported from
  \<^verbatim>\<open>autogpt.core.messaging.simple\<close>, which is not part of the sources. The definitions
  of this section follow the spec's data model and its description of
  \<^verbatim>\<open>create_channel\<close>, \<^verbatim>\<open>register_listener\<close> and \<^verbatim>\<open>publish\<close>: a listener registration is
  a filter, a callback and its registration order; a callback runs on the state \<open>'w\<close> of
  whatever it changes and either succeeds or fails with an error; a channel is a name
  and the sequence of its registrations, in registration order.
\<close>

record 'w listener_registration =
  lr_filter :: "message \<Rightarrow> bool"
  lr_callback :: "message \<Rightarrow> 'w \<Rightarrow> py_error option \<times> 'w"
  registration_order :: nat

record 'w channel =
  channel_name :: string
  registrations :: "'w listener_registration list"

datatype broker_error = DuplicateChannelError | UnknownChannelError

type_synonym 'w broker = "string \<Rightarrow> 'w channel option"

definition create_channel :: "'w broker \<Rightarrow> string \<Rightarrow> broker_error + 'w broker" where
  "create_channel b n =
     (case b n of
        Some _ \<Rightarrow> Inl DuplicateChannelError
      | None \<Rightarrow> Inr (b(n \<mapsto> \<lparr>channel_name = n, registrations = []\<rparr>)))"

definition register_listener ::
  "'w broker \<Rightarrow> string \<Rightarrow> (message \<Rightarrow> 'w \<Rightarrow> py_error option \<times> 'w) \<Rightarrow> (message \<Rightarrow> bool)
     \<Rightarrow> broker_error + 'w broker"
where
  "register_listener b n cb f =
     (case b n of
        None \<Rightarrow> Inl UnknownChannelError
      | Some c \<Rightarrow>
          Inr (b(n \<mapsto> c\<lparr>registrations := registrations c @
                 [\<lparr>lr_filter = f, lr_callback = cb,
                   registration_order = length (registrations c)\<rparr>]\<rparr>)))"

text \<open>
  Modelled from the spec: the \<^verbatim>\<open>DispatchResult\<close> of a publish, with the listeners
  evaluated, matched, succeeded and failed, and the failures as pairs of the registration
  (its registration order) and the error.
\<close>

record dispatch_result =
  evaluated :: nat
  matched :: nat
  succeeded :: nat
  failed :: nat
  failures :: "(nat \<times> py_error) list"

definition no_dispatch :: dispatch_result where
  "no_dispatch = \<lparr>evaluated = 0, matched = 0, succeeded = 0, failed = 0, failures = []\<rparr>"

text \<open>
  Modelled from the spec: the dispatch loop of \<^verbatim>\<open>publish\<close>. Each registration is taken
  in registration order; its filter is evaluated; when the filter holds the callback is
  invoked and has finished before the next registration is looked at; a failure is
  recorded and the loop goes on. Next to the result and the state, the loop keeps the log
  of the callbacks it invoked (their registration orders, in the order of the calls).
\<close>

fun dispatch ::
  "'w listener_registration list \<Rightarrow> message \<Rightarrow> dispatch_result \<times> nat list \<times> 'w
     \<Rightarrow> dispatch_result \<times> nat list \<times> 'w"
where
  "dispatch [] m acc = acc"
| "dispatch (l # ls) m (r, calls, w) =
     (let r1 = r\<lparr>evaluated := evaluated r + 1\<rparr>
      in if lr_filter l m
         then
           (let r2 = r1\<lparr>matched := matched r1 + 1\<rparr>;
                calls' = calls @ [registration_order l]
            in case lr_callback l m w of
                 (None, w') \<Rightarrow>
                   dispatch ls m (r2\<lparr>succeeded := succeeded r2 + 1\<rparr>, calls', w')
               | (Some e, w') \<Rightarrow>
                   dispatch ls m
                     (r2\<lparr>failed := failed r2 + 1,
                         failures := failures r2 @ [(registration_order l, e)]\<rparr>, calls', w'))
         else dispatch ls m (r1, calls, w))"

record 'w published =
  success :: bool
  result :: dispatch_result
  invoked :: "nat list"
  after :: 'w

definition publish :: "'w channel \<Rightarrow> message \<Rightarrow> 'w \<Rightarrow> 'w published" where
  "publish c m w =
     (let (r, calls, w') = dispatch (registrations c) m (no_dispatch, [], w)
      in \<lparr>success = True, result = r, invoked = calls, after = w'\<rparr>)"

text \<open>
  The state after the callbacks of those registrations of a list whose filter holds of
  the message have run from a state, one after the other in the order of the list, each
  on the state that the one before it has left.
\<close>

abbreviation run_matching :: "'w listener_registration list \<Rightarrow> message \<Rightarrow> 'w \<Rightarrow> 'w" where
  "run_matching ls m w \<equiv>
     foldl (\<lambda>w l. snd (lr_callback l m w)) w (filter (\<lambda>l. lr_filter l m) ls)"

text \<open>
  The registrations of a channel made by \<open>create_channel\<close> and \<open>register_listener\<close> are
  numbered by their positions.
\<close>

definition channel_wf :: "'w channel \<Rightarrow> bool" where
  "channel_wf c = (map registration_order (registrations c) = [0..<length (registrations c)])"

definition broker_wf :: "'w broker \<Rightarrow> bool" where
  "broker_wf b = (\<forall>n c. b n = Some c \<longrightarrow> channel_wf c)"

section \<open>The filters\<close>

text \<open>
  C7: each base role predicate holds exactly when the sender's role is the predicate's
  role: \<open>is_user_message\<close> for \<open>USER\<close>, \<open>is_agent_message\<close> for \<open>AGENT\<close> and
  \<open>is_agent_factory_message\<close> for \<open>AGENT_FACTORY\<close>.
\<close>

theorem role_predicates:
  "is_user_message m = (role (sender (metadata m)) = USER) \<and>
   is_agent_message m = (role (sender (metadata m)) = AGENT) \<and>
   is_agent_factory_message m = (role (sender (metadata m)) = AGENT_FACTORY)"
  by (simp add: is_user_message_def is_agent_message_def is_agent_factory_message_def)

text \<open>
  C6: \<open>is_server_message\<close> holds exactly when the sender's role is \<open>AGENT\<close> or
  \<open>AGENT_FACTORY\<close>: on two booleans \<^verbatim>\<open>|\<close> is the disjunction.
\<close>

theorem is_server_message_iff:
  "is_server_message m =
     (role (sender (metadata m)) = AGENT \<or> role (sender (metadata m)) = AGENT_FACTORY)"
  by (simp add: is_server_message_def py_or_def is_agent_message_def is_agent_factory_message_def)

text \<open>
  The result of \<^verbatim>\<open>&\<close> with a boolean is a boolean or an integer, never a string, so
  the comparison with the instruction's name is false whenever it is reached: the two
  instruction filters accept no message at all.
\<close>

lemma py_and_not_str: "py_and b v = Inr r \<Longrightarrow> \<not> py_eq_str r s"
  by (cases v) (auto simp: py_and_def py_eq_str_def)

lemma bootstrap_never_accepts: "is_user_bootstrap_message m \<noteq> Inr True"
  by (auto simp: is_user_bootstrap_message_def Let_def split: sum.splits dest: py_and_not_str)

lemma launch_never_accepts: "is_user_launch_message m \<noteq> Inr True"
  by (auto simp: is_user_launch_message_def Let_def split: sum.splits dest: py_and_not_str)

text \<open>
  C1 says that \<open>is_user_bootstrap_message\<close> (\<open>is_user_launch_message\<close>) is true exactly
  for a message of a \<open>USER\<close> whose instruction is \<^verbatim>\<open>"bootstrap_agent"\<close>
  (\<^verbatim>\<open>"launch_agent"\<close>). On exactly such a message the code does not return true: the
  \<^verbatim>\<open>&\<close> of the boolean and the string raises \<^verbatim>\<open>TypeError\<close>.
\<close>

theorem user_instruction_message_raises:
  "is_user_bootstrap_message
     \<lparr>content = Map.empty,
      metadata = \<lparr>sender = \<lparr>name = ''autogpt-user'', role = USER\<rparr>,
                  additional_metadata = [''instruction'' \<mapsto> PStr ''bootstrap_agent'']\<rparr>\<rparr>
     = Inl TypeError \<and>
   is_user_launch_message
     \<lparr>content = Map.empty,
      metadata = \<lparr>sender = \<lparr>name = ''autogpt-user'', role = USER\<rparr>,
                  additional_metadata = [''instruction'' \<mapsto> PStr ''launch_agent'']\<rparr>\<rparr>
     = Inl TypeError"
  by (simp add: is_user_bootstrap_message_def is_user_launch_message_def is_user_message_def
      dict_getitem_def py_and_def)

text \<open>
  C2 says that every filter returns a boolean on every well-formed message and that the
  instruction filters are false when the key \<^verbatim>\<open>"instruction"\<close> is absent. For the
  message of a \<open>USER\<close> with empty additional metadata the subscript raises \<^verbatim>\<open>KeyError\<close>.
\<close>

theorem missing_instruction_counterexample:
  "is_user_bootstrap_message
     \<lparr>content = Map.empty,
      metadata = \<lparr>sender = \<lparr>name = ''autogpt-user'', role = USER\<rparr>,
                  additional_metadata = Map.empty\<rparr>\<rparr>
     = Inl KeyError"
  by (simp add: is_user_bootstrap_message_def is_user_message_def dict_getitem_def)

text \<open>
  C2, as amended: the role filters only compare the sender's role and have a boolean
  for every message (C6, C7); the instruction filters do not: on a message of a \<open>USER\<close>
  whose additional metadata has no key \<^verbatim>\<open>"instruction"\<close> both raise \<^verbatim>\<open>KeyError\<close>.
\<close>

theorem missing_instruction_raises:
  assumes "role (sender (metadata m)) = USER"
    and "additional_metadata (metadata m) ''instruction'' = None"
  shows "is_user_bootstrap_message m = Inl KeyError \<and> is_user_launch_message m = Inl KeyError"
  using assms
  by (simp add: is_user_bootstrap_message_def is_user_launch_message_def dict_getitem_def)

theorem missing_instruction_raises_witness:
  "is_user_bootstrap_message
     \<lparr>content = Map.empty,
      metadata = \<lparr>sender = \<lparr>name = ''alice'', role = USER\<rparr>,
                  additional_metadata = [''topic'' \<mapsto> PInt 1]\<rparr>\<rparr> = Inl KeyError \<and>
   is_user_launch_message
     \<lparr>content = Map.empty,
      metadata = \<lparr>sender = \<lparr>name = ''alice'', role = USER\<rparr>,
                  additional_metadata = [''topic'' \<mapsto> PInt 1]\<rparr>\<rparr> = Inl KeyError"
  using missing_instruction_raises
    [of "\<lparr>content = Map.empty,
      metadata = \<lparr>sender = \<lparr>name = ''alice'', role = USER\<rparr>,
                  additional_metadata = [''topic'' \<mapsto> PInt 1]\<rparr>\<rparr>"]
  by simp

section \<open>The queues of the server\<close>

text \<open>
  C8: \<^verbatim>\<open>_add_to_queue\<close> puts the message at the end of the queue of its sender's name,
  behind the messages that queue already had, in their order (a name without a queue gets
  the queue of this one message); the queue of every other name and the rest of the
  state stay as they were.
\<close>

theorem add_to_queue_appends:
  "message_queue (server_add_to_queue m s) (name (sender (metadata m))) =
     Some (fst (defaultdict_getitem (message_queue s) (name (sender (metadata m)))) @ [m]) \<and>
   (\<forall>k. k \<noteq> name (sender (metadata m)) \<longrightarrow>
      message_queue (server_add_to_queue m s) k = message_queue s k) \<and>
   listeners (server_add_to_queue m s) = listeners s"
  by (auto simp: server_add_to_queue_def defaultdict_getitem_def Let_def split: option.splits)

theorem add_to_queue_appends_witness:
  "message_queue
     (server_add_to_queue (message_of ''autogpt-agent'' AGENT [''n'' \<mapsto> PInt 2] Map.empty)
        \<lparr>message_queue =
           [''autogpt-agent'' \<mapsto> [message_of ''autogpt-agent'' AGENT [''n'' \<mapsto> PInt 1] Map.empty],
            ''autogpt-agent-factory'' \<mapsto> []],
         listeners = ()\<rparr>) ''autogpt-agent''
     = Some [message_of ''autogpt-agent'' AGENT [''n'' \<mapsto> PInt 1] Map.empty,
             message_of ''autogpt-agent'' AGENT [''n'' \<mapsto> PInt 2] Map.empty] \<and>
   message_queue
     (server_add_to_queue (message_of ''autogpt-agent'' AGENT [''n'' \<mapsto> PInt 2] Map.empty)
        \<lparr>message_queue =
           [''autogpt-agent'' \<mapsto> [message_of ''autogpt-agent'' AGENT [''n'' \<mapsto> PInt 1] Map.empty],
            ''autogpt-agent-factory'' \<mapsto> []],
         listeners = ()\<rparr>) ''autogpt-agent-factory''
     = Some []"
  using add_to_queue_appends
    [of "message_of ''autogpt-agent'' AGENT [''n'' \<mapsto> PInt 2] Map.empty"
        "\<lparr>message_queue =
           [''autogpt-agent'' \<mapsto> [message_of ''autogpt-agent'' AGENT [''n'' \<mapsto> PInt 1] Map.empty],
            ''autogpt-agent-factory'' \<mapsto> []],
         listeners = ()\<rparr>"]
  by (simp add: defaultdict_getitem_def)

section \<open>Sending a message\<close>

lemma send_message_args_dicts:
  assumes "json rq = PDict j" and "j ''content'' = Some (PDict rc)"
    and "j ''metadata'' = Some (PDict rm)"
  shows "send_message_args rq (PDict ec) (PDict em) = Inr (rc ++ ec, rm ++ em)"
  using assms
  by (simp add: send_message_args_def dict_display_def py_getitem_def dict_getitem_def
      py_mapping_def)

lemma server_send_message_sent:
  assumes "send_message_args rq xc xm = Inr (c, md)"
  shows "server_send_message ue rq xc xm s =
           (case ue c md s of
              (Inl e, s') \<Rightarrow> (Inl e, s')
            | (Inr b, s') \<Rightarrow> (Inl AttributeError, s'))"
  using assms
  by (simp add: server_send_message_def object_setattr_def Let_def split: prod.splits sum.splits)

text \<open>
  C5: in \<^verbatim>\<open>_send_message\<close>, with a request whose content and metadata are mappings and
  with extras that are mappings, the content and the metadata that are handed to the
  emitter have, for every key of the extras (also one that the request has too), the
  value of the extras; the other keys have the request's values.
\<close>

theorem send_message_extras_win:
  assumes "json rq = PDict j" and "j ''content'' = Some (PDict rc)"
    and "j ''metadata'' = Some (PDict rm)"
  shows "\<exists>c md. send_message_args rq (PDict ec) (PDict em) = Inr (c, md) \<and>
           (\<forall>k \<in> dom ec. c k = ec k) \<and>
           (\<forall>k \<in> dom em. md k = em k) \<and>
           (\<forall>k. k \<notin> dom ec \<longrightarrow> c k = rc k) \<and>
           (\<forall>k. k \<notin> dom em \<longrightarrow> md k = rm k) \<and>
           server_send_message ue rq (PDict ec) (PDict em) s =
             (case ue c md s of
                (Inl e, s') \<Rightarrow> (Inl e, s')
              | (Inr b, s') \<Rightarrow> (Inl AttributeError, s'))"
proof -
  have args: "send_message_args rq (PDict ec) (PDict em) = Inr (rc ++ ec, rm ++ em)"
    using assms by (rule send_message_args_dicts)
  have "\<forall>k \<in> dom ec. (rc ++ ec) k = ec k" by (auto simp: map_add_def)
  moreover have "\<forall>k \<in> dom em. (rm ++ em) k = em k" by (auto simp: map_add_def)
  moreover have "\<forall>k. k \<notin> dom ec \<longrightarrow> (rc ++ ec) k = rc k" by (simp add: map_add_def domIff)
  moreover have "\<forall>k. k \<notin> dom em \<longrightarrow> (rm ++ em) k = rm k" by (simp add: map_add_def domIff)
  ultimately show ?thesis
    using args server_send_message_sent [OF args, of ue s] by blast
qed

theorem send_message_extras_win_witness:
  "\<exists>c md.
     send_message_args
       \<lparr>json = PDict [''content'' \<mapsto> PDict [''agent_name'' \<mapsto> PStr ''a'', ''message_broker'' \<mapsto> PNone],
                      ''metadata'' \<mapsto> PDict [''instruction'' \<mapsto> PStr ''launch_agent'']]\<rparr>
       (PDict [''message_broker'' \<mapsto> PObj 7])
       (PDict [''instruction'' \<mapsto> PStr ''bootstrap_agent'']) = Inr (c, md) \<and>
     c ''message_broker'' = Some (PObj 7) \<and>
     c ''agent_name'' = Some (PStr ''a'') \<and>
     md ''instruction'' = Some (PStr ''bootstrap_agent'')"
proof -
  let ?j = "[''content'' \<mapsto> PDict [''agent_name'' \<mapsto> PStr ''a'', ''message_broker'' \<mapsto> PNone],
             ''metadata'' \<mapsto> PDict [''instruction'' \<mapsto> PStr ''launch_agent'']]"
  have h1: "json \<lparr>json = PDict ?j\<rparr> = PDict ?j" by simp
  have h2: "?j ''content'' = Some (PDict [''agent_name'' \<mapsto> PStr ''a'', ''message_broker'' \<mapsto> PNone])"
    by simp
  have h3: "?j ''metadata'' = Some (PDict [''instruction'' \<mapsto> PStr ''launch_agent''])" by simp
  show ?thesis
    using send_message_extras_win [OF h1 h2 h3, of "[''message_broker'' \<mapsto> PObj 7]"
        "[''instruction'' \<mapsto> PStr ''bootstrap_agent'']" "\<lambda>c md s. (Inr True, s)"
        "\<lparr>message_queue = Map.empty, listeners = ()\<rparr>"]
    by (auto simp: dom_def)
qed

lemma send_message_args_None:
  "xc = PNone \<or> xm = PNone \<Longrightarrow> \<exists>e. send_message_args rq xc xm = Inl e"
  by (auto simp: send_message_args_def dict_display_def py_mapping_def split: sum.splits)

lemma send_message_args_None_TypeError:
  assumes "py_getitem (json rq) ''content'' = Inr (PDict rc)"
    and "py_getitem (json rq) ''metadata'' = Inr (PDict rm)"
    and "xc = PNone \<or> xm = PNone"
  shows "send_message_args rq xc xm = Inl TypeError"
  using assms
  by (cases xc; cases xm) (auto simp: send_message_args_def dict_display_def py_mapping_def)

lemma server_send_message_raises: "\<exists>e. fst (server_send_message ue rq xc xm s) = Inl e"
  by (auto simp: server_send_message_def object_setattr_def Let_def split: prod.splits sum.splits)

lemma server_send_message_unsent:
  "send_message_args rq xc xm = Inl e \<Longrightarrow> server_send_message ue rq xc xm s = (Inl e, s)"
  by (simp add: server_send_message_def)

text \<open>
  C9: \<^verbatim>\<open>_send_message\<close> raises on every input and returns no response. When
  \<^verbatim>\<open>extra_content\<close> or \<^verbatim>\<open>extra_metadata\<close> is \<^verbatim>\<open>None\<close> the building of the arguments
  fails, whatever the emitter is, and the state is the one before the call: nothing has
  been sent (with a request whose content and metadata are mappings the error is the
  \<^verbatim>\<open>TypeError\<close> of the merge). When the arguments are built and the emitter returns, the
  assignment of \<^verbatim>\<open>status_code\<close> raises \<^verbatim>\<open>AttributeError\<close>, in the state that the send
  has left. \<^verbatim>\<open>launch_agent\<close>, which passes no extras, raises before it sends.
\<close>

theorem send_message_always_raises:
  "(\<exists>e. fst (server_send_message ue rq xc xm s) = Inl e) \<and>
   (xc = PNone \<or> xm = PNone \<longrightarrow>
      (\<exists>e. \<forall>ue'. server_send_message ue' rq xc xm s = (Inl e, s))) \<and>
   (py_getitem (json rq) ''content'' = Inr (PDict rc) \<longrightarrow>
    py_getitem (json rq) ''metadata'' = Inr (PDict rm) \<longrightarrow>
    xc = PNone \<or> xm = PNone \<longrightarrow>
      server_send_message ue rq xc xm s = (Inl TypeError, s)) \<and>
   (send_message_args rq xc xm = Inr (c, md) \<longrightarrow> ue c md s = (Inr b, s') \<longrightarrow>
      server_send_message ue rq xc xm s = (Inl AttributeError, s')) \<and>
   (\<exists>e. launch_agent ue rq s = (Inl e, s))"
proof (intro conjI impI)
  show "\<exists>e. fst (server_send_message ue rq xc xm s) = Inl e"
    by (rule server_send_message_raises)
next
  assume "xc = PNone \<or> xm = PNone"
  then obtain e where "send_message_args rq xc xm = Inl e"
    using send_message_args_None by blast
  then show "\<exists>e. \<forall>ue'. server_send_message ue' rq xc xm s = (Inl e, s)"
    using server_send_message_unsent by blast
next
  assume "py_getitem (json rq) ''content'' = Inr (PDict rc)"
    and "py_getitem (json rq) ''metadata'' = Inr (PDict rm)"
    and "xc = PNone \<or> xm = PNone"
  then have "send_message_args rq xc xm = Inl TypeError"
    by (rule send_message_args_None_TypeError)
  then show "server_send_message ue rq xc xm s = (Inl TypeError, s)"
    by (rule server_send_message_unsent)
next
  assume "send_message_args rq xc xm = Inr (c, md)" and "ue c md s = (Inr b, s')"
  then show "server_send_message ue rq xc xm s = (Inl AttributeError, s')"
    using server_send_message_sent [of rq xc xm c md ue s] by simp
next
  obtain e where "send_message_args rq PNone PNone = Inl e"
    using send_message_args_None [of PNone PNone rq] by blast
  then show "\<exists>e. launch_agent ue rq s = (Inl e, s)"
    using server_send_message_unsent [of rq PNone PNone e ue s] by (simp add: launch_agent_def)
qed

theorem send_message_always_raises_witness:
  "server_send_message (\<lambda>c md s. (Inr True, s))
     \<lparr>json = PDict [''content'' \<mapsto> PDict [''agent_name'' \<mapsto> PStr ''a''],
                    ''metadata'' \<mapsto> PDict Map.empty]\<rparr>
     PNone PNone \<lparr>message_queue = Map.empty, listeners = ()\<rparr>
     = (Inl TypeError, \<lparr>message_queue = Map.empty, listeners = ()\<rparr>) \<and>
   server_send_message
     (\<lambda>c md s. (Inr True,
        server_add_to_queue (message_of ''autogpt-agent-factory'' AGENT_FACTORY c md) s))
     \<lparr>json = PDict [''content'' \<mapsto> PDict [''agent_name'' \<mapsto> PStr ''a''],
                    ''metadata'' \<mapsto> PDict Map.empty]\<rparr>
     (PDict Map.empty) (PDict Map.empty) \<lparr>message_queue = Map.empty, listeners = ()\<rparr>
     = (Inl AttributeError,
        server_add_to_queue
          (message_of ''autogpt-agent-factory'' AGENT_FACTORY [''agent_name'' \<mapsto> PStr ''a'']
             Map.empty)
          \<lparr>message_queue = Map.empty, listeners = ()\<rparr>)"
proof -
  let ?rq = "\<lparr>json = PDict [''content'' \<mapsto> PDict [''agent_name'' \<mapsto> PStr ''a''],
                    ''metadata'' \<mapsto> PDict Map.empty]\<rparr>"
  let ?s = "\<lparr>message_queue = Map.empty, listeners = ()\<rparr> :: unit server_state"
  let ?ue = "\<lambda>(c::dict) (md::dict) (s::unit server_state).
    (Inr True :: py_error + bool,
        server_add_to_queue (message_of ''autogpt-agent-factory'' AGENT_FACTORY c md) s)"
  have c: "py_getitem (json ?rq) ''content'' = Inr (PDict [''agent_name'' \<mapsto> PStr ''a''])"
    by (simp add: py_getitem_def dict_getitem_def)
  have m: "py_getitem (json ?rq) ''metadata'' = Inr (PDict Map.empty)"
    by (simp add: py_getitem_def dict_getitem_def)
  have a: "send_message_args ?rq (PDict Map.empty) (PDict Map.empty)
             = Inr ([''agent_name'' \<mapsto> PStr ''a''], Map.empty)"
    by (simp add: send_message_args_def dict_display_def py_getitem_def dict_getitem_def
        py_mapping_def)
  have u: "?ue [''agent_name'' \<mapsto> PStr ''a''] Map.empty ?s
             = (Inr True, server_add_to_queue
                  (message_of ''autogpt-agent-factory'' AGENT_FACTORY
                     [''agent_name'' \<mapsto> PStr ''a''] Map.empty) ?s)"
    by simp
  show ?thesis
    using send_message_always_raises
      [of "\<lambda>c md s. (Inr True, s)" ?rq PNone PNone ?s "[''agent_name'' \<mapsto> PStr ''a'']"
          Map.empty]
      send_message_always_raises
      [of ?ue ?rq "PDict Map.empty" "PDict Map.empty" ?s _ _
          "[''agent_name'' \<mapsto> PStr ''a'']" Map.empty True
          "server_add_to_queue
                  (message_of ''autogpt-agent-factory'' AGENT_FACTORY
                     [''agent_name'' \<mapsto> PStr ''a''] Map.empty) ?s"]
      c m a u
    by simp
qed

section \<open>Bootstrapping an agent\<close>

text \<open>
  \<^verbatim>\<open>boostrap_new_agent\<close> ends with the exception of \<^verbatim>\<open>_send_message\<close>, in the state
  that \<^verbatim>\<open>_send_message\<close> has left: the statements that collate the responses never run.
\<close>

lemma boostrap_new_agent_raises:
  "\<exists>e. boostrap_new_agent ue mb rq s =
          (Inl e, snd (server_send_message ue rq
                         (PDict [''message_broker'' \<mapsto> PObj mb])
                         (PDict [''instruction'' \<mapsto> PStr ''bootstrap_agent'']) s))"
proof -
  obtain r s' where res: "server_send_message ue rq
                         (PDict [''message_broker'' \<mapsto> PObj mb])
                         (PDict [''instruction'' \<mapsto> PStr ''bootstrap_agent'']) s = (r, s')"
    by (cases "server_send_message ue rq
                         (PDict [''message_broker'' \<mapsto> PObj mb])
                         (PDict [''instruction'' \<mapsto> PStr ''bootstrap_agent'']) s")
  obtain e where "r = Inl e"
    using server_send_message_raises [of ue rq "PDict [''message_broker'' \<mapsto> PObj mb]"
        "PDict [''instruction'' \<mapsto> PStr ''bootstrap_agent'']" s] res by auto
  with res show ?thesis by (simp add: boostrap_new_agent_def)
qed

text \<open>
  C10 says that after the collation \<^verbatim>\<open>message_queue["autogpt-agent-factory"]\<close> is empty
  and the response carries the messages that were in it. With an emitter whose send puts
  one response of the agent factory into the queue and reports success,
  \<^verbatim>\<open>boostrap_new_agent\<close> raises \<^verbatim>\<open>AttributeError\<close>, returns no response, and the
  response of the agent factory is still in the queue.
\<close>

theorem boostrap_new_agent_never_collates:
  "fst (boostrap_new_agent
     (\<lambda>c md s. (Inr True,
        server_add_to_queue
          (message_of ''autogpt-agent-factory'' AGENT_FACTORY [''reply'' \<mapsto> PInt 1] Map.empty) s))
     7
     \<lparr>json = PDict [''content'' \<mapsto> PDict [''agent_name'' \<mapsto> PStr ''a''],
                    ''metadata'' \<mapsto> PDict Map.empty]\<rparr>
     \<lparr>message_queue = Map.empty, listeners = ()\<rparr>) = Inl AttributeError \<and>
   message_queue (snd (boostrap_new_agent
     (\<lambda>c md s. (Inr True,
        server_add_to_queue
          (message_of ''autogpt-agent-factory'' AGENT_FACTORY [''reply'' \<mapsto> PInt 1] Map.empty) s))
     7
     \<lparr>json = PDict [''content'' \<mapsto> PDict [''agent_name'' \<mapsto> PStr ''a''],
                    ''metadata'' \<mapsto> PDict Map.empty]\<rparr>
     \<lparr>message_queue = Map.empty, listeners = ()\<rparr>)) ''autogpt-agent-factory''
     = Some [message_of ''autogpt-agent-factory'' AGENT_FACTORY [''reply'' \<mapsto> PInt 1] Map.empty]"
  by (simp add: boostrap_new_agent_def server_send_message_def send_message_args_def
      dict_display_def py_getitem_def dict_getitem_def py_mapping_def object_setattr_def
      object_new_def server_add_to_queue_def defaultdict_getitem_def Let_def)

section \<open>Dispatch\<close>

text \<open>
  The broker's operations keep the registrations of every channel numbered by their
  positions.
\<close>

lemma broker_wf_empty: "broker_wf Map.empty"
  by (simp add: broker_wf_def)

lemma create_channel_wf:
  "broker_wf b \<Longrightarrow> create_channel b n = Inr b' \<Longrightarrow> broker_wf b'"
  by (auto simp: broker_wf_def create_channel_def channel_wf_def split: option.splits if_splits)

lemma register_listener_wf:
  "broker_wf b \<Longrightarrow> register_listener b n cb f = Inr b' \<Longrightarrow> broker_wf b'"
  by (auto simp: broker_wf_def register_listener_def channel_wf_def split: option.splits if_splits)

text \<open>
  The log of a dispatch is the log before it, followed by the registrations whose filter
  holds, in registration order.
\<close>

lemma dispatch_invoked:
  "fst (snd (dispatch ls m (r, calls, w))) =
     calls @ map registration_order (filter (\<lambda>l. lr_filter l m) ls)"
  by (induction ls arbitrary: r calls w) (auto simp: Let_def split: prod.splits option.splits)

lemma count_filtered:
  "distinct (map f xs) \<Longrightarrow> x \<in> set xs \<Longrightarrow>
     count_list (map f (filter P xs)) (f x) = (if P x then 1 else 0)"
proof (induction xs)
  case Nil
  then show ?case by simp
next
  case (Cons a xs)
  have absent: "f a \<notin> f ` set xs" using Cons.prems(1) by simp
  show ?case
  proof (cases "x = a")
    case True
    have "count_list (map f (filter P xs)) (f a) = 0"
      using absent by (auto simp: count_list_0_iff)
    with True show ?thesis by simp
  next
    case False
    with Cons.prems have "x \<in> set xs" by simp
    moreover have "f x \<noteq> f a" using absent \<open>x \<in> set xs\<close> by (metis imageI)
    ultimately show ?thesis using Cons by auto
  qed
qed

lemma channel_wf_distinct: "channel_wf c \<Longrightarrow> distinct (map registration_order (registrations c))"
  by (simp add: channel_wf_def)

lemma publish_invoked:
  "invoked (publish c m w) =
     map registration_order (filter (\<lambda>l. lr_filter l m) (registrations c))"
  using dispatch_invoked [of "registrations c" m no_dispatch "[]" w]
  by (cases "dispatch (registrations c) m (no_dispatch, [], w)") (simp add: publish_def)

lemma publish_result:
  "result (publish c m w) = fst (dispatch (registrations c) m (no_dispatch, [], w))"
  by (cases "dispatch (registrations c) m (no_dispatch, [], w)") (simp add: publish_def)

lemma publish_success: "success (publish c m w)"
  by (cases "dispatch (registrations c) m (no_dispatch, [], w)") (simp add: publish_def)

text \<open>
  The state after a dispatch is the state after the callbacks of the matching
  registrations have run; a dispatch over two lists one behind the other is the dispatch
  over the second from where the dispatch over the first ends.
\<close>

lemma dispatch_after:
  "snd (snd (dispatch ls m (r, calls, w))) = run_matching ls m w"
  by (induction ls arbitrary: r calls w) (auto simp: Let_def split: prod.splits option.splits)

lemma dispatch_append:
  "dispatch (xs @ ys) m acc = dispatch ys m (dispatch xs m acc)"
proof (induction xs arbitrary: acc)
  case Nil
  then show ?case by simp
next
  case (Cons a xs)
  obtain r calls w where acc: "acc = (r, calls, w)" by (cases acc)
  show ?case unfolding acc
    by (simp add: Let_def Cons split: prod.splits option.splits)
qed

lemma publish_after_raw:
  "after (publish c m w) = snd (snd (dispatch (registrations c) m (no_dispatch, [], w)))"
  by (cases "dispatch (registrations c) m (no_dispatch, [], w)") (simp add: publish_def)

lemma publish_after: "after (publish c m w) = run_matching (registrations c) m w"
  using dispatch_after [of "registrations c" m no_dispatch "[]" w]
  by (cases "dispatch (registrations c) m (no_dispatch, [], w)") (simp add: publish_def)

lemma count_registered:
  assumes "distinct (map registration_order ls)" and "l \<in> set ls"
  shows "count_list (filter (\<lambda>l. lr_filter l m) ls) l = (if lr_filter l m then 1 else 0)"
proof -
  have "distinct (map (\<lambda>x. x) ls)" using assms(1) by (simp add: distinct_map)
  from count_filtered [OF this assms(2), of "\<lambda>l. lr_filter l m"] show ?thesis by simp
qed

lemma dispatch_failures_mono:
  "set (failures r) \<subseteq> set (failures (fst (dispatch ls m (r, calls, w))))"
proof (induction ls arbitrary: r calls w)
  case Nil
  then show ?case by simp
next
  case (Cons a ls)
  show ?case
  proof (cases "lr_filter a m")
    case False
    then show ?thesis using Cons [of "r\<lparr>evaluated := evaluated r + 1\<rparr>" calls w] by (simp add: Let_def)
  next
    case True
    obtain o' w' where cb: "lr_callback a m w = (o', w')" by (cases "lr_callback a m w")
    show ?thesis
    proof (cases o')
      case None
      then show ?thesis
        using True cb Cons [of "r\<lparr>evaluated := evaluated r + 1, matched := matched r + 1, succeeded := succeeded r + 1\<rparr>" "calls @ [registration_order a]" w']
        by (simp add: Let_def)
    next
      case (Some e)
      then show ?thesis
        using True cb Cons [of "r\<lparr>evaluated := evaluated r + 1, matched := matched r + 1, failed := failed r + 1, failures := failures r @ [(registration_order a, e)]\<rparr>" "calls @ [registration_order a]" w']
        by (auto simp add: Let_def)
    qed
  qed
qed

lemma dispatch_step_failure:
  assumes "lr_filter l m" and "lr_callback l m w = (Some e, w')"
  shows "(registration_order l, e) \<in> set (failures (fst (dispatch (l # ls) m (r, calls, w)))) \<and>
         snd (snd (dispatch (l # ls) m (r, calls, w))) = run_matching ls m w'"
proof -
  let ?r = "r\<lparr>evaluated := evaluated r + 1, matched := matched r + 1, failed := failed r + 1,
              failures := failures r @ [(registration_order l, e)]\<rparr>"
  have step: "dispatch (l # ls) m (r, calls, w) =
                dispatch ls m (?r, calls @ [registration_order l], w')"
    using assms by (simp add: Let_def)
  have "(registration_order l, e) \<in> set (failures ?r)" by simp
  then have "(registration_order l, e) \<in>
               set (failures (fst (dispatch ls m (?r, calls @ [registration_order l], w'))))"
    by (rule subsetD [OF dispatch_failures_mono])
  then show ?thesis using step dispatch_after [of ls m ?r "calls @ [registration_order l]" w']
    by simp
qed

text \<open>
  C3: for a channel whose registrations are numbered by their positions, a registered
  listener and a published message: the state after the publish is the state after the
  callbacks of the registrations whose filter holds of the message have run, each once,
  in registration order; in that sequence of callbacks the listener occurs exactly once
  when its filter holds of the message and not at all when it does not; and so does its
  registration order in the log of the invocations.
\<close>

theorem publish_invokes_matching_once:
  assumes "channel_wf c" and "l \<in> set (registrations c)"
  shows "after (publish c m w) =
           run_matching (registrations c) m w \<and>
         count_list (filter (\<lambda>l. lr_filter l m) (registrations c)) l =
           (if lr_filter l m then 1 else 0) \<and>
         count_list (invoked (publish c m w)) (registration_order l) =
           (if lr_filter l m then 1 else 0)"
  using count_filtered [OF channel_wf_distinct [OF assms(1)] assms(2)]
    count_registered [OF channel_wf_distinct [OF assms(1)] assms(2)]
  by (simp add: publish_invoked publish_after)

theorem publish_invokes_matching_once_witness:
  "after (publish
        \<lparr>channel_name = ''autogpt'',
         registrations =
           [\<lparr>lr_filter = is_user_message, lr_callback = (\<lambda>m w. (None, Suc w)),
             registration_order = 0\<rparr>,
            \<lparr>lr_filter = is_agent_message, lr_callback = (\<lambda>m w. (None, w + 10)),
             registration_order = 1\<rparr>]\<rparr>
        (message_of ''alice'' USER [''msg'' \<mapsto> PStr ''hi''] Map.empty) (0::nat)) = 1 \<and>
   count_list
     (invoked (publish
        \<lparr>channel_name = ''autogpt'',
         registrations =
           [\<lparr>lr_filter = is_user_message, lr_callback = (\<lambda>m w. (None, Suc w)),
             registration_order = 0\<rparr>,
            \<lparr>lr_filter = is_agent_message, lr_callback = (\<lambda>m w. (None, w + 10)),
             registration_order = 1\<rparr>]\<rparr>
        (message_of ''alice'' USER [''msg'' \<mapsto> PStr ''hi''] Map.empty) (0::nat))) 0 = 1 \<and>
   count_list
     (invoked (publish
        \<lparr>channel_name = ''autogpt'',
         registrations =
           [\<lparr>lr_filter = is_user_message, lr_callback = (\<lambda>m w. (None, Suc w)),
             registration_order = 0\<rparr>,
            \<lparr>lr_filter = is_agent_message, lr_callback = (\<lambda>m w. (None, w + 10)),
             registration_order = 1\<rparr>]\<rparr>
        (message_of ''alice'' USER [''msg'' \<mapsto> PStr ''hi''] Map.empty) (0::nat))) 1 = 0"
proof -
  let ?a = "\<lparr>lr_filter = is_user_message, lr_callback = (\<lambda>m (w::nat). (None, Suc w)),
             registration_order = 0\<rparr>"
  let ?b = "\<lparr>lr_filter = is_agent_message, lr_callback = (\<lambda>m (w::nat). (None, w + 10)),
             registration_order = 1\<rparr>"
  let ?c = "\<lparr>channel_name = ''autogpt'', registrations = [?a, ?b]\<rparr>"
  let ?m = "message_of ''alice'' USER [''msg'' \<mapsto> PStr ''hi''] Map.empty"
  have wf: "channel_wf ?c" by (simp add: channel_wf_def upt_rec)
  have a: "?a \<in> set (registrations ?c)" by simp
  have b: "?b \<in> set (registrations ?c)" by simp
  have fa: "lr_filter ?a ?m" by (simp add: is_user_message_def)
  have fb: "\<not> lr_filter ?b ?m" by (simp add: is_agent_message_def)
  show ?thesis
    using publish_invokes_matching_once [OF wf a, of ?m 0]
      publish_invokes_matching_once [OF wf b, of ?m 0] fa fb
    by simp
qed

text \<open>
  C4: when the filter of the registration at a position holds and its callback fails in
  the state in which the publish invokes it (the state that the matching callbacks
  before it have left), then the failure is among the failures of the dispatch result,
  the state after the publish is the one that the callbacks of the matching
  registrations behind that position leave when they run from the state the failed
  callback left, the log holds all matching registrations in registration order, and the
  publish reports success.
\<close>

theorem publish_isolates_failures:
  assumes "i < length (registrations c)"
    and "lr_filter (registrations c ! i) m"
    and "lr_callback (registrations c ! i) m (run_matching (take i (registrations c)) m w)
           = (Some e, w')"
  shows "success (publish c m w) \<and>
         (registration_order (registrations c ! i), e)
           \<in> set (failures (result (publish c m w))) \<and>
         after (publish c m w) = run_matching (drop (Suc i) (registrations c)) m w' \<and>
         invoked (publish c m w) =
           map registration_order (filter (\<lambda>l. lr_filter l m) (registrations c))"
proof -
  let ?ls = "registrations c"
  let ?l = "?ls ! i"
  obtain r1 c1 w1 where pre: "dispatch (take i ?ls) m (no_dispatch, [], w) = (r1, c1, w1)"
    by (cases "dispatch (take i ?ls) m (no_dispatch, [], w)")
  have w1: "w1 = run_matching (take i ?ls) m w"
    using dispatch_after [of "take i ?ls" m no_dispatch "[]" w] pre by simp
  have split: "?ls = take i ?ls @ ?l # drop (Suc i) ?ls"
    using assms(1) by (simp add: id_take_nth_drop [symmetric])
  have eq: "dispatch ?ls m (no_dispatch, [], w) = dispatch (?l # drop (Suc i) ?ls) m (r1, c1, w1)"
    using dispatch_append [of "take i ?ls" "?l # drop (Suc i) ?ls" m "(no_dispatch, [], w)"]
      split pre by simp
  have cb: "lr_callback ?l m w1 = (Some e, w')" using assms(3) w1 by simp
  have "(registration_order ?l, e)
          \<in> set (failures (fst (dispatch ?ls m (no_dispatch, [], w)))) \<and>
        snd (snd (dispatch ?ls m (no_dispatch, [], w))) = run_matching (drop (Suc i) ?ls) m w'"
    unfolding eq using assms(2) cb by (rule dispatch_step_failure)
  then have "(registration_order ?l, e) \<in> set (failures (result (publish c m w))) \<and>
             after (publish c m w) = run_matching (drop (Suc i) ?ls) m w'"
    by (simp only: publish_result publish_after_raw)
  then show ?thesis by (simp add: publish_success publish_invoked)
qed

theorem publish_isolates_failures_witness:
  "success (publish
        \<lparr>channel_name = ''autogpt'',
         registrations =
           [\<lparr>lr_filter = is_user_message, lr_callback = (\<lambda>m w. (None, Suc w)),
             registration_order = 0\<rparr>,
            \<lparr>lr_filter = is_user_message,
             lr_callback = (\<lambda>m w. (if w = 1 then Some KeyError else None, w)),
             registration_order = 1\<rparr>,
            \<lparr>lr_filter = is_user_message, lr_callback = (\<lambda>m w. (None, w + 10)),
             registration_order = 2\<rparr>]\<rparr>
        (message_of ''alice'' USER [''msg'' \<mapsto> PStr ''hi''] Map.empty) (0::nat)) \<and>
   (1, KeyError) \<in> set (failures (result (publish
        \<lparr>channel_name = ''autogpt'',
         registrations =
           [\<lparr>lr_filter = is_user_message, lr_callback = (\<lambda>m w. (None, Suc w)),
             registration_order = 0\<rparr>,
            \<lparr>lr_filter = is_user_message,
             lr_callback = (\<lambda>m w. (if w = 1 then Some KeyError else None, w)),
             registration_order = 1\<rparr>,
            \<lparr>lr_filter = is_user_message, lr_callback = (\<lambda>m w. (None, w + 10)),
             registration_order = 2\<rparr>]\<rparr>
        (message_of ''alice'' USER [''msg'' \<mapsto> PStr ''hi''] Map.empty) (0::nat)))) \<and>
   after (publish
        \<lparr>channel_name = ''autogpt'',
         registrations =
           [\<lparr>lr_filter = is_user_message, lr_callback = (\<lambda>m w. (None, Suc w)),
             registration_order = 0\<rparr>,
            \<lparr>lr_filter = is_user_message,
             lr_callback = (\<lambda>m w. (if w = 1 then Some KeyError else None, w)),
             registration_order = 1\<rparr>,
            \<lparr>lr_filter = is_user_message, lr_callback = (\<lambda>m w. (None, w + 10)),
             registration_order = 2\<rparr>]\<rparr>
        (message_of ''alice'' USER [''msg'' \<mapsto> PStr ''hi''] Map.empty) (0::nat)) = 11 \<and>
   invoked (publish
        \<lparr>channel_name = ''autogpt'',
         registrations =
           [\<lparr>lr_filter = is_user_message, lr_callback = (\<lambda>m w. (None, Suc w)),
             registration_order = 0\<rparr>,
            \<lparr>lr_filter = is_user_message,
             lr_callback = (\<lambda>m w. (if w = 1 then Some KeyError else None, w)),
             registration_order = 1\<rparr>,
            \<lparr>lr_filter = is_user_message, lr_callback = (\<lambda>m w. (None, w + 10)),
             registration_order = 2\<rparr>]\<rparr>
        (message_of ''alice'' USER [''msg'' \<mapsto> PStr ''hi''] Map.empty) (0::nat)) = [0, 1, 2]"
proof -
  let ?a = "\<lparr>lr_filter = is_user_message, lr_callback = (\<lambda>m (w::nat). (None, Suc w)),
             registration_order = 0\<rparr>"
  let ?b = "\<lparr>lr_filter = is_user_message,
             lr_callback = (\<lambda>m (w::nat). (if w = 1 then Some KeyError else None, w)),
             registration_order = 1\<rparr>"
  let ?d = "\<lparr>lr_filter = is_user_message, lr_callback = (\<lambda>m (w::nat). (None, w + 10)),
             registration_order = 2\<rparr>"
  let ?c = "\<lparr>channel_name = ''autogpt'', registrations = [?a, ?b, ?d]\<rparr>"
  let ?m = "message_of ''alice'' USER [''msg'' \<mapsto> PStr ''hi''] Map.empty"
  have i: "1 < length (registrations ?c)" by simp
  have f: "lr_filter (registrations ?c ! 1) ?m" by (simp add: is_user_message_def)
  have e: "lr_callback (registrations ?c ! 1) ?m
             (foldl (\<lambda>w l. snd (lr_callback l ?m w)) 0
                (filter (\<lambda>l. lr_filter l ?m) (take 1 (registrations ?c))))
           = (Some KeyError, 1)"
    by (simp add: is_user_message_def)
  show ?thesis
    using publish_isolates_failures [OF i f e]
    by (simp add: is_user_message_def)
qed

text \<open>
  The spec's scenario: a failing listener for users and a listener for agents, and a
  message of a user.
\<close>

lemma example_dispatch:
  "publish
        \<lparr>channel_name = ''autogpt'',
         registrations =
           [\<lparr>lr_filter = is_user_message, lr_callback = (\<lambda>m w. (Some TypeError, w)),
             registration_order = 0\<rparr>,
            \<lparr>lr_filter = is_agent_message, lr_callback = (\<lambda>m w. (None, Suc w)),
             registration_order = 1\<rparr>]\<rparr>
        (message_of ''alice'' USER [''msg'' \<mapsto> PStr ''hi''] Map.empty) (0::nat)
    = \<lparr>success = True,
       result = \<lparr>evaluated = 2, matched = 1, succeeded = 0, failed = 1,
                  failures = [(0, TypeError)]\<rparr>,
       invoked = [0], after = 0\<rparr>"
  by (simp add: publish_def no_dispatch_def is_user_message_def is_agent_message_def)

end
